theory Spec2Isabelle
  imports Main "HOL-Library.Word"
begin

unbundle bit_operations_syntax

section \<open>Data model of the TCP server\<close>

text \<open>
  The development embeds \<^verbatim>\<open>tcp::Server<Handler>\<close> (the header that holds the
  constructor, the destructor, \<^verbatim>\<open>Run\<close> and \<^verbatim>\<open>HandleConnUpdate\<close>).
  File descriptors and the return values of system calls are C \<^verbatim>\<open>int\<close>s; they are only
  compared with \<^verbatim>\<open>-1\<close> and with each other, so they are HOL integers. Bytes are 8-bit
  words, a \<^verbatim>\<open>std::vector<std::byte>\<close> is a list of bytes.
\<close>

type_synonym byte = "8 word"

text \<open>\<^verbatim>\<open>sockaddr_in\<close>; \<^verbatim>\<open>sockaddr_in client_addr{}\<close> is the all-zero value.\<close>

record sockaddr_in =
  sin_family :: "16 word"
  sin_port :: "16 word"
  sin_addr :: "32 word"

definition sockaddr_in_zero :: sockaddr_in where
  "sockaddr_in_zero = \<lparr>sin_family = 0, sin_port = 0, sin_addr = 0\<rparr>"

text \<open>
  \<^verbatim>\<open>tcp::Error\<close> and \<^verbatim>\<open>Error::Kind\<close> are declared in \<^verbatim>\<open>utils.h\<close>. The server header
  names the kinds \<^verbatim>\<open>EpollCreation\<close>, \<^verbatim>\<open>SocketCreation\<close>, \<^verbatim>\<open>SocketBinding\<close>,
  \<^verbatim>\<open>SocketListening\<close>, \<^verbatim>\<open>EpollAdd\<close>, \<^verbatim>\<open>EpollWait\<close> and \<^verbatim>\<open>Read\<close>, and builds errors as
  \<^verbatim>\<open>Error(message, kind)\<close>; the kind \<^verbatim>\<open>Write\<close> is the one the specification gives to a
  failed write.
\<close>

datatype Kind =
  EpollCreation | SocketCreation | SocketBinding | SocketListening
  | EpollAdd | EpollWait | Read | Write

datatype Error = Error string Kind

fun kind :: "Error \<Rightarrow> Kind" where
  "kind (Error msg k) = k"

fun what :: "Error \<Rightarrow> string" where
  "what (Error msg k) = msg"

text \<open>\<^verbatim>\<open>enum UpdateKind { New, Read }\<close>. The constructor \<open>Read\<close> of \<open>Kind\<close> is written
  \<open>Kind.Read\<close> from here on, as \<^verbatim>\<open>Error::Kind::Read\<close> is in the source.\<close>

datatype UpdateKind = New | Read

text \<open>\<^verbatim>\<open>epoll_event\<close>: the event mask and the descriptor stored in \<^verbatim>\<open>data.fd\<close>; the two
  mask bits of \<^verbatim>\<open>sys/epoll.h\<close> that the server uses.\<close>

record epoll_event =
  events :: "32 word"
  data_fd :: int

definition EPOLLIN :: "32 word" where
  "EPOLLIN = 0x001"

definition EPOLLHUP :: "32 word" where
  "EPOLLHUP = 0x010"

subsection \<open>Work items and the worker pool\<close>

text \<open>
  The closures that \<^verbatim>\<open>Run\<close> pushes to the pool, one constructor per lambda:
  \<^item> \<open>ConnUpdateTask UK client_fd in_buf\<close> is
    \<^verbatim>\<open>[&handler, client_fd, in_buf] { HandleConnUpdate<UK>(handler, client_fd, in_buf); }\<close>
    (for \<open>New\<close> the buffer is the default argument \<^verbatim>\<open>{}\<close>);
  \<^item> \<open>OnErrorTask client_addr e\<close> is \<^verbatim>\<open>[&handler, client_addr] { handler.OnError(client_addr, e); }\<close>;
  \<^item> \<open>OnCloseTask client_addr\<close> is \<^verbatim>\<open>[&handler, client_addr] { handler.OnClose(client_addr); }\<close>.
\<close>

datatype Task =
  ConnUpdateTask UpdateKind int "byte list"
  | OnErrorTask sockaddr_in Error
  | OnCloseTask sockaddr_in

text \<open>Modelled from the spec: \<^verbatim>\<open>thread_pool.h\<close> (class \<^verbatim>\<open>ThreadPool\<close>) is not among the sources.
  The specification says that Submit "appends it to the shared queue", that the queue is
  unbounded and that Submit never rejects work. The pool is therefore its queue of pending
  work items, oldest first, and \<open>Push\<close> appends.
\<close>

type_synonym ThreadPool = "Task list"

definition Push :: "ThreadPool \<Rightarrow> Task \<Rightarrow> ThreadPool" where
  "Push q t = q @ [t]"

subsection \<open>The server object\<close>

text \<open>The member variables of \<^verbatim>\<open>Server\<close>, in their order of declaration (the leading
  underscore of the C++ names is dropped).\<close>

record Server =
  epoll_fd :: int
  port :: "16 word"
  buf_size :: nat
  max_events :: int
  server_fd :: int
  thread_pool :: ThreadPool

subsection \<open>The environment: system calls and the helpers of utils.h\<close>

text \<open>
  What the kernel holds for a connected socket when \<^verbatim>\<open>read\<close> is called on it: a pending
  error, or the bytes waiting in the receive queue (none of them when the peer has shut
  down its side).
\<close>

datatype sock_cond = RecvError | RecvData "byte list"

text \<open>
  \<^verbatim>\<open>read(fd, buf, count)\<close> on a stream socket: the return value and the bytes stored at the
  start of the buffer. A read of \<open>count = 0\<close> bytes returns \<open>0\<close> whatever the socket holds
  (Linux returns before looking at the socket); otherwise a pending error gives \<open>-1\<close>
  and pending data gives at most \<open>count\<close> bytes of it.
\<close>

definition sys_read :: "sock_cond \<Rightarrow> nat \<Rightarrow> int \<times> byte list" where
  "sys_read c count =
     (if count = 0 then (0, [])
      else case c of
        RecvError \<Rightarrow> (- 1, [])
      | RecvData bs \<Rightarrow> (int (min count (length bs)), take count bs))"

text \<open>The buffer after the kernel has stored \<open>bs\<close> at its start.\<close>

definition store_bytes :: "byte list \<Rightarrow> byte list \<Rightarrow> byte list" where
  "store_bytes bs buf = bs @ drop (length bs) buf"

text \<open>\<^verbatim>\<open>write\<close> as seen by the helper \<^verbatim>\<open>Write\<close>: it succeeds, or fails with the message the
  helper puts in its error.\<close>

datatype write_reply = WriteOk | WriteFailed string

text \<open>
  The answers of the environment while one readiness event is processed or one work item
  is executed: the return values of \<^verbatim>\<open>accept\<close> and of \<^verbatim>\<open>epoll_ctl(EPOLL_CTL_ADD)\<close>, the
  state of the socket that \<^verbatim>\<open>read\<close> finds, the outcome of the helper
  \<^verbatim>\<open>GetClientAddress(client_fd)\<close> of \<^verbatim>\<open>utils.h\<close> (it returns the peer address or throws an
  \<^verbatim>\<open>Error\<close>; the helper is not among the sources, so its outcome is a parameter), and the
  outcome of the write.
\<close>

record os_replies =
  accept_ret :: int
  epoll_ctl_ret :: int
  sock :: sock_cond
  GetClientAddress :: "Error + sockaddr_in"
  write_ret :: write_reply

text \<open>Modelled from the spec: the helper \<^verbatim>\<open>Write(client_fd, out_buf)\<close> of \<^verbatim>\<open>utils.h\<close> is not among
  the sources. The specification says "if the write fails, close the handle and invoke
  OnError with a ConnectionError{Write}": the helper throws an \<^verbatim>\<open>Error\<close> of kind \<open>Write\<close>
  when the write fails and returns normally otherwise. The text of the message is not
  specified and comes with the failure.
\<close>

definition Write :: "write_reply \<Rightarrow> int \<Rightarrow> byte list \<Rightarrow> Error + unit" where
  "Write r client_fd out_buf =
     (case r of WriteOk \<Rightarrow> Inr () | WriteFailed msg \<Rightarrow> Inl (Error msg Kind.Write))"

text \<open>
  The observable actions, in the order in which the code performs them. The system calls
  that create a descriptor carry the value returned (\<open>-1\<close> on failure), and so does
  \<^verbatim>\<open>epoll_ctl(epfd, EPOLL_CTL_ADD, fd)\<close>.
\<close>

datatype Action =
  Sys_epoll_create1 int
  | Sys_socket int
  | Sys_setsockopt int
  | Sys_bind int "16 word"
  | Sys_listen int
  | Sys_epoll_ctl_add int int int
  | Sys_epoll_wait int int
  | Sys_accept int int
  | Sys_read int nat
  | Sys_close int
  | Call_GetClientAddress int
  | Call_Write int "byte list"
  | Call_OnNew sockaddr_in
  | Call_OnRead sockaddr_in "byte list"
  | Call_OnClose sockaddr_in
  | Call_OnError sockaddr_in Error

section \<open>The event loop: one readiness notification\<close>

text \<open>
  The body of \<^verbatim>\<open>for (int i = 0; i < num_events; ++i)\<close> in \<^verbatim>\<open>Run\<close>, for the event
  \<^verbatim>\<open>events[i]\<close> and the answers the environment gives while it is processed. It returns the
  server (whose pool may have one more work item) and the actions performed.
\<close>

definition process_event :: "Server \<Rightarrow> epoll_event \<times> os_replies \<Rightarrow> Server \<times> Action list" where
  "process_event srv er =
     (let ev = fst er; os = snd er in
      if events ev AND EPOLLHUP \<noteq> 0 then (srv, [])
      else if data_fd ev = server_fd srv then
        (let client_fd = accept_ret os in
         if client_fd = - 1 then (srv, [Sys_accept (server_fd srv) client_fd])
         else if epoll_ctl_ret os = - 1 then
           (srv, [Sys_accept (server_fd srv) client_fd,
                  Sys_epoll_ctl_add (epoll_fd srv) client_fd (epoll_ctl_ret os),
                  Sys_close client_fd])
         else
           (srv\<lparr>thread_pool := Push (thread_pool srv) (ConnUpdateTask New client_fd [])\<rparr>,
            [Sys_accept (server_fd srv) client_fd,
             Sys_epoll_ctl_add (epoll_fd srv) client_fd (epoll_ctl_ret os)]))
      else
        (let client_fd = data_fd ev;
             in_buf = replicate (buf_size srv) (0 :: byte);
             r = sys_read (sock os) (length in_buf);
             n = fst r;
             in_buf = store_bytes (snd r) in_buf
         in
         if n = - 1 then
           (let client_addr = (case GetClientAddress os of
                                 Inl e \<Rightarrow> sockaddr_in_zero
                               | Inr a \<Rightarrow> a)
            in (srv\<lparr>thread_pool := Push (thread_pool srv)
                      (OnErrorTask client_addr
                         (Error ''Failed to read from a client.'' Kind.Read))\<rparr>,
                [Sys_read client_fd (buf_size srv),
                 Call_GetClientAddress client_fd,
                 Sys_close client_fd]))
         else if n = 0 then
           (let client_addr = (case GetClientAddress os of
                                 Inl e \<Rightarrow> sockaddr_in_zero
                               | Inr a \<Rightarrow> a)
            in (srv\<lparr>thread_pool := Push (thread_pool srv) (OnCloseTask client_addr)\<rparr>,
                [Sys_read client_fd (buf_size srv),
                 Call_GetClientAddress client_fd,
                 Sys_close client_fd]))
         else
           (srv\<lparr>thread_pool := Push (thread_pool srv) (ConnUpdateTask Read client_fd in_buf)\<rparr>,
            [Sys_read client_fd (buf_size srv)])))"

text \<open>
  One turn of \<^verbatim>\<open>while (true)\<close>: the answer of \<^verbatim>\<open>epoll_wait\<close> is its return value and the
  events it has stored, each with the answers of the environment while it is processed.
  The inner loop visits \<^verbatim>\<open>events[0]\<close> to \<^verbatim>\<open>events[num_events - 1]\<close>.
\<close>

record wait_reply =
  wait_ret :: int
  ready :: "(epoll_event \<times> os_replies) list"

fun process_events :: "Server \<Rightarrow> (epoll_event \<times> os_replies) list \<Rightarrow> Server \<times> Action list" where
  "process_events srv [] = (srv, [])"
| "process_events srv (er # ers) =
     (let r = process_event srv er;
          r' = process_events (fst r) ers
      in (fst r', snd r @ snd r'))"

definition loop_iteration :: "Server \<Rightarrow> wait_reply \<Rightarrow> (Error + Server) \<times> Action list" where
  "loop_iteration srv w =
     (let num_events = wait_ret w;
          call = [Sys_epoll_wait (epoll_fd srv) (max_events srv)]
      in
      if num_events = - 1 then (Inl (Error ''Failed to wait for events.'' EpollWait), call)
      else
        (let r = process_events srv (take (nat num_events) (ready w))
         in (Inr (fst r), call @ snd r)))"

text \<open>The loop after finitely many turns, one for each answer of \<^verbatim>\<open>epoll_wait\<close> in the
  list: the server as it is then, or the error thrown on the way.\<close>

fun run_iterations :: "Server \<Rightarrow> wait_reply list \<Rightarrow> (Error + Server) \<times> Action list" where
  "run_iterations srv [] = (Inr srv, [])"
| "run_iterations srv (w # ws) =
     (case loop_iteration srv w of
        (Inl e, as) \<Rightarrow> (Inl e, as)
      | (Inr srv', as) \<Rightarrow> (let r = run_iterations srv' ws in (fst r, as @ snd r)))"

text \<open>
  \<^verbatim>\<open>while (true) { ... }\<close> itself. The loop has no exit but the exception; a run in which
  it goes on forever has the value \<open>None\<close>. The result type has a normal return
  (\<open>Inr ()\<close>) so that its absence is a theorem rather than a matter of typing. \<open>waits i\<close> is
  the answer of the \<open>i\<close>-th call of \<^verbatim>\<open>epoll_wait\<close>.
\<close>

partial_function (option) event_loop ::
  "(nat \<Rightarrow> wait_reply) \<Rightarrow> nat \<Rightarrow> Server \<Rightarrow> Action list \<Rightarrow> ((Error + unit) \<times> Action list) option" where
  "event_loop waits i srv tr =
     (case loop_iteration srv (waits i) of
        (Inl e, as) \<Rightarrow> Some (Inl e, tr @ as)
      | (Inr srv', as) \<Rightarrow> event_loop waits (Suc i) srv' (tr @ as))"

text \<open>
  \<^verbatim>\<open>Run(Handler &handler)\<close>. The handler is only captured by reference in the closures
  pushed to the pool; it is supplied when a work item is executed (\<open>run_task\<close> below).
\<close>

record run_replies =
  listen_ret :: int
  add_ret :: int
  waits :: "nat \<Rightarrow> wait_reply"

definition Run :: "Server \<Rightarrow> run_replies \<Rightarrow> ((Error + unit) \<times> Action list) option" where
  "Run srv os =
     (if listen_ret os = - 1 then
        Some (Inl (Error ''Failed to listen on server socket.'' SocketListening),
              [Sys_listen (server_fd srv)])
      else if add_ret os = - 1 then
        Some (Inl (Error ''Failed to add server socket to epoll instance.'' EpollAdd),
              [Sys_listen (server_fd srv),
               Sys_epoll_ctl_add (epoll_fd srv) (server_fd srv) (add_ret os)])
      else
        event_loop (waits os) 0 srv
          [Sys_listen (server_fd srv),
           Sys_epoll_ctl_add (epoll_fd srv) (server_fd srv) (add_ret os)])"

section \<open>Work items executed by a worker\<close>

text \<open>
  The handler type is a template parameter. The server calls four methods on it:
  \<^verbatim>\<open>bool OnNew(client_addr, out_buf)\<close>, \<^verbatim>\<open>bool OnRead(client_addr, in_buf, out_buf)\<close>,
  \<^verbatim>\<open>OnClose(client_addr)\<close> and \<^verbatim>\<open>OnError(client_addr, error)\<close>. A handler is a state
  of type \<open>'h\<close> together with these methods; a method returns the new state of the object
  it was called on, and \<open>OnNew\<close> and \<open>OnRead\<close> also return \<^verbatim>\<open>keep_alive\<close> and the output
  buffer they were given by reference. Handlers are values: a copy of a handler starts in
  the state of the original and shares nothing with it.
\<close>

record 'h Handler =
  OnNew :: "'h \<Rightarrow> sockaddr_in \<Rightarrow> byte list \<Rightarrow> bool \<times> byte list \<times> 'h"
  OnRead :: "'h \<Rightarrow> sockaddr_in \<Rightarrow> byte list \<Rightarrow> byte list \<Rightarrow> bool \<times> byte list \<times> 'h"
  OnClose :: "'h \<Rightarrow> sockaddr_in \<Rightarrow> 'h"
  OnError :: "'h \<Rightarrow> sockaddr_in \<Rightarrow> Error \<Rightarrow> 'h"

text \<open>
  \<^verbatim>\<open>HandleConnUpdate<UK>(Handler handler, const int client_fd, const std::vector<std::byte> &in_buf)\<close>.
  The parameter \<open>handler\<close> is the function's own copy of the handler (it is passed by
  value); the result is the state of that copy when the function returns, and the actions.
\<close>

definition HandleConnUpdate ::
  "'h Handler \<Rightarrow> UpdateKind \<Rightarrow> 'h \<Rightarrow> int \<Rightarrow> byte list \<Rightarrow> os_replies \<Rightarrow> 'h \<times> Action list" where
  "HandleConnUpdate H UK handler client_fd in_buf os =
     (case GetClientAddress os of
        Inl error \<Rightarrow>
          (OnError H handler sockaddr_in_zero error,
           [Call_GetClientAddress client_fd,
            Sys_close client_fd,
            Call_OnError sockaddr_in_zero error])
      | Inr client_addr \<Rightarrow>
          (let out_buf = [];
               r = (case UK of
                      New \<Rightarrow> OnNew H handler client_addr out_buf
                    | Read \<Rightarrow> OnRead H handler client_addr in_buf out_buf);
               call = (case UK of
                         New \<Rightarrow> Call_OnNew client_addr
                       | Read \<Rightarrow> Call_OnRead client_addr in_buf);
               keep_alive = fst r;
               out_buf = fst (snd r);
               handler = snd (snd r)
           in
           case Write (write_ret os) client_fd out_buf of
             Inl e \<Rightarrow>
               (OnError H handler client_addr e,
                [Call_GetClientAddress client_fd, call, Call_Write client_fd out_buf,
                 Sys_close client_fd,
                 Call_OnError client_addr e])
           | Inr u \<Rightarrow>
               if \<not> keep_alive then
                 (handler,
                  [Call_GetClientAddress client_fd, call, Call_Write client_fd out_buf,
                   Sys_close client_fd])
               else
                 (handler,
                  [Call_GetClientAddress client_fd, call, Call_Write client_fd out_buf])))"

text \<open>
  A worker executes one closure. The first argument of the result is the state of the
  handler object that \<^verbatim>\<open>Run\<close> was given (the closures hold a reference to it) after the
  closure has run. \<^verbatim>\<open>HandleConnUpdate\<close> works on its copy, which is destroyed on return;
  the two other closures call the method on the referenced object.
\<close>

definition run_task :: "'h Handler \<Rightarrow> 'h \<Rightarrow> Task \<times> os_replies \<Rightarrow> 'h \<times> Action list" where
  "run_task H handler tos =
     (case fst tos of
        ConnUpdateTask UK client_fd in_buf \<Rightarrow>
          (handler, snd (HandleConnUpdate H UK handler client_fd in_buf (snd tos)))
      | OnErrorTask client_addr e \<Rightarrow>
          (OnError H handler client_addr e, [Call_OnError client_addr e])
      | OnCloseTask client_addr \<Rightarrow>
          (OnClose H handler client_addr, [Call_OnClose client_addr]))"

text \<open>Work items executed one after the other on the same handler object.\<close>

fun run_tasks :: "'h Handler \<Rightarrow> 'h \<Rightarrow> (Task \<times> os_replies) list \<Rightarrow> 'h \<times> Action list" where
  "run_tasks H handler [] = (handler, [])"
| "run_tasks H handler (tos # rest) =
     (let r = run_task H handler tos;
          r' = run_tasks H (fst r) rest
      in (fst r', snd r @ snd r'))"

section \<open>Construction and destruction\<close>

text \<open>
  The constructor. The member initialisers run in the order of declaration of the members:
  \<^verbatim>\<open>epoll_create1(0)\<close>, then \<^verbatim>\<open>socket(AF_INET, SOCK_STREAM, 0)\<close>, then the pool; the body
  follows. A \<^verbatim>\<open>throw\<close> in the body of a constructor destroys the members already built
  (the integers and the pool) and does not run the destructor of \<^verbatim>\<open>Server\<close>, whose object
  never came to exist: the actions of a failed construction are those listed here and
  nothing more.
\<close>

record ctor_replies =
  epoll_create1_ret :: int
  socket_ret :: int
  setsockopt_ret :: int
  bind_ret :: int

definition Server_ctor ::
  "16 word \<Rightarrow> nat \<Rightarrow> nat \<Rightarrow> int \<Rightarrow> ctor_replies \<Rightarrow> (Error + Server) \<times> Action list" where
  "Server_ctor port' threads buf_size' max_events' os =
     (let this = \<lparr>epoll_fd = epoll_create1_ret os, port = port', buf_size = buf_size',
                   max_events = max_events', server_fd = socket_ret os, thread_pool = []\<rparr>;
          init = [Sys_epoll_create1 (epoll_fd this), Sys_socket (server_fd this)]
      in
      if max_events' \<le> 0 then
        (Inl (Error ''Invalid max events.'' EpollCreation), init)
      else if epoll_fd this = - 1 then
        (Inl (Error ''Failed to create epoll instance.'' EpollCreation), init)
      else if server_fd this = - 1 then
        (Inl (Error ''Failed to create server socket.'' SocketCreation), init)
      else if setsockopt_ret os = - 1 then
        (Inl (Error ''Failed to set socket options.'' SocketCreation),
         init @ [Sys_setsockopt (server_fd this)])
      else if bind_ret os = - 1 then
        (Inl (Error ''Failed to bind server socket.'' SocketBinding),
         init @ [Sys_setsockopt (server_fd this), Sys_bind (server_fd this) port'])
      else
        (Inr this,
         init @ [Sys_setsockopt (server_fd this), Sys_bind (server_fd this) port']))"

text \<open>\<^verbatim>\<open>~Server()\<close>, run when a constructed server is destroyed.\<close>

definition Server_dtor :: "Server \<Rightarrow> Action list" where
  "Server_dtor srv = [Sys_close (epoll_fd srv), Sys_close (server_fd srv)]"

section \<open>Reading a trace\<close>

text \<open>The descriptors closed and the handler methods called, in order.\<close>

fun closes :: "Action list \<Rightarrow> int list" where
  "closes [] = []"
| "closes (Sys_close fd # as) = fd # closes as"
| "closes (a # as) = closes as"

fun is_handler_call :: "Action \<Rightarrow> bool" where
  "is_handler_call (Call_OnNew a) = True"
| "is_handler_call (Call_OnRead a b) = True"
| "is_handler_call (Call_OnClose a) = True"
| "is_handler_call (Call_OnError a e) = True"
| "is_handler_call a = False"

definition handler_calls :: "Action list \<Rightarrow> Action list" where
  "handler_calls as = filter is_handler_call as"

text \<open>
  The descriptors open after a trace, from those open before it: a call that creates a
  descriptor and succeeds adds it, \<^verbatim>\<open>close\<close> removes it.
\<close>

fun open_fds :: "int set \<Rightarrow> Action list \<Rightarrow> int set" where
  "open_fds S [] = S"
| "open_fds S (Sys_epoll_create1 r # as) = open_fds (if r = - 1 then S else insert r S) as"
| "open_fds S (Sys_socket r # as) = open_fds (if r = - 1 then S else insert r S) as"
| "open_fds S (Sys_accept s r # as) = open_fds (if r = - 1 then S else insert r S) as"
| "open_fds S (Sys_close fd # as) = open_fds (S - {fd}) as"
| "open_fds S (a # as) = open_fds S as"

text \<open>
  The descriptors registered with the epoll instance after a trace: a successful
  \<^verbatim>\<open>EPOLL_CTL_ADD\<close> registers one, and closing a descriptor removes its registration (the
  server never calls \<^verbatim>\<open>EPOLL_CTL_DEL\<close>).
\<close>

fun registered :: "int set \<Rightarrow> Action list \<Rightarrow> int set" where
  "registered S [] = S"
| "registered S (Sys_epoll_ctl_add ep fd r # as) =
     registered (if r = - 1 then S else insert fd S) as"
| "registered S (Sys_close fd # as) = registered (S - {fd}) as"
| "registered S (a # as) = registered S as"

text \<open>The work items of a queue that refer to a given connection handle.\<close>

fun task_fd :: "Task \<Rightarrow> int option" where
  "task_fd (ConnUpdateTask UK client_fd in_buf) = Some client_fd"
| "task_fd (OnErrorTask a e) = None"
| "task_fd (OnCloseTask a) = None"

definition in_flight :: "int \<Rightarrow> ThreadPool \<Rightarrow> Task list" where
  "in_flight fd q = filter (\<lambda>t. task_fd t = Some fd) q"


section \<open>Concrete inputs\<close>

text \<open>
  The server that \<^verbatim>\<open>main\<close> builds (port 8080, 4 threads, a receive buffer of 1024 bytes,
  16 events for each wait), with the epoll instance on descriptor 3 and the listening
  socket on descriptor 4; a peer address (127.0.0.1, port 12345 in network order); ten
  bytes waiting on a connection; an environment in which every call succeeds; and a
  handler that counts the calls made on it and echoes what it reads.
\<close>

definition main_srv :: Server where
  "main_srv = \<lparr>epoll_fd = 3, port = 8080, buf_size = 1024, max_events = 16,
                server_fd = 4, thread_pool = []\<rparr>"

definition peer0 :: sockaddr_in where
  "peer0 = \<lparr>sin_family = 2, sin_port = 0x3930, sin_addr = 0x0100007F\<rparr>"

definition ten_bytes :: "byte list" where
  "ten_bytes = [1, 2, 3, 4, 5, 6, 7, 8, 9, 10]"

definition os_ok :: os_replies where
  "os_ok = \<lparr>accept_ret = 5, epoll_ctl_ret = 0, sock = RecvData ten_bytes,
            GetClientAddress = Inr peer0, write_ret = WriteOk\<rparr>"

definition count_handler :: "nat Handler" where
  "count_handler = \<lparr>OnNew = (\<lambda>h a out. (True, out, Suc h)),
                     OnRead = (\<lambda>h a inb out. (True, out @ inb, Suc h)),
                     OnClose = (\<lambda>h a. Suc h),
                     OnError = (\<lambda>h a e. Suc h)\<rparr>"

section \<open>Properties of the event loop\<close>

text \<open>What \<^verbatim>\<open>read\<close> can answer: \<open>-1\<close> on an error, or the number of bytes stored, which
  is at most the size of the buffer.\<close>

lemma sys_read_cases:
  "sys_read c count = (n, bs) \<Longrightarrow>
     (n = - 1 \<and> bs = [] \<and> c = RecvError \<and> count \<noteq> 0)
   \<or> (0 \<le> n \<and> length bs = nat n \<and> nat n \<le> count)"
  by (auto simp: sys_read_def split: if_splits sock_cond.splits)

subsection \<open>Hang-up notifications\<close>

text \<open>
  Claim C8, as amended. The loop ignores a notification (no accept, no read, no close,
  nothing pushed to the pool, the server unchanged) exactly when the hang-up bit
  \<^verbatim>\<open>EPOLLHUP\<close> is set in its event mask, whether or not the mask also reports readable
  data; every other notification is processed.
\<close>

theorem hup_events_ignored:
  "process_event srv (ev, os) = (srv, []) \<longleftrightarrow> events ev AND EPOLLHUP \<noteq> 0"
  by (simp add: process_event_def Let_def)

text \<open>The amended claim at a notification with only \<^verbatim>\<open>EPOLLHUP\<close> set.\<close>

theorem hup_events_ignored_witness:
  "process_event main_srv (\<lparr>events = EPOLLHUP, data_fd = 5\<rparr>, os_ok) = (main_srv, [])"
  using hup_events_ignored [of main_srv "\<lparr>events = EPOLLHUP, data_fd = 5\<rparr>" os_ok]
  by (simp add: EPOLLHUP_def)

text \<open>
  Claim C8 as stated fails: a notification whose mask is \<^verbatim>\<open>EPOLLIN | EPOLLHUP\<close> carries
  readable data (ten bytes are waiting, and a read would return them), it is not
  hang-up-only, and the loop skips it all the same.
\<close>

theorem hup_with_data_counterexample:
  "events \<lparr>events = EPOLLIN OR EPOLLHUP, data_fd = 5\<rparr> AND EPOLLIN \<noteq> 0 \<and>
   sys_read (sock os_ok) (buf_size main_srv) = (10, ten_bytes) \<and>
   process_event main_srv (\<lparr>events = EPOLLIN OR EPOLLHUP, data_fd = 5\<rparr>, os_ok)
     = (main_srv, [])"
  by (simp add: process_event_def Let_def EPOLLIN_def EPOLLHUP_def main_srv_def os_ok_def
      sys_read_def ten_bytes_def)

subsection \<open>Facts shared by the claims\<close>

text \<open>The loop thread calls no handler method, adds at most one work item for a
  notification and changes nothing else in the server.\<close>

lemma process_event_no_calls: "handler_calls (snd (process_event srv er)) = []"
  by (simp add: process_event_def Let_def handler_calls_def)

lemma process_event_pool:
  "\<exists>ts. fst (process_event srv er) = srv\<lparr>thread_pool := thread_pool srv @ ts\<rparr> \<and> length ts \<le> 1"
proof -
  have "fst (process_event srv er) = srv\<lparr>thread_pool := thread_pool srv @ []\<rparr>
      \<or> (\<exists>t. fst (process_event srv er) = srv\<lparr>thread_pool := thread_pool srv @ [t]\<rparr>)"
    by (auto simp add: process_event_def Let_def Push_def)
  then show ?thesis
  proof
    assume "fst (process_event srv er) = srv\<lparr>thread_pool := thread_pool srv @ []\<rparr>"
    then have "fst (process_event srv er) = srv\<lparr>thread_pool := thread_pool srv @ []\<rparr> \<and>
               length ([] :: Task list) \<le> 1" by simp
    then show ?thesis by blast
  next
    assume "\<exists>t. fst (process_event srv er) = srv\<lparr>thread_pool := thread_pool srv @ [t]\<rparr>"
    then obtain t where "fst (process_event srv er) = srv\<lparr>thread_pool := thread_pool srv @ [t]\<rparr>"
      by blast
    then have "fst (process_event srv er) = srv\<lparr>thread_pool := thread_pool srv @ [t]\<rparr> \<and>
               length [t] \<le> 1" by simp
    then show ?thesis by blast
  qed
qed

lemma process_event_frame:
  "epoll_fd (fst (process_event srv er)) = epoll_fd srv \<and>
   max_events (fst (process_event srv er)) = max_events srv"
  by (simp add: process_event_def Let_def)

lemma process_events_frame:
  "epoll_fd (fst (process_events srv ers)) = epoll_fd srv \<and>
   max_events (fst (process_events srv ers)) = max_events srv"
  by (induction ers arbitrary: srv) (simp_all add: Let_def process_event_frame)

text \<open>Every work item makes at least one call on the handler when it is executed.\<close>

lemma run_conn_task_calls:
  "handler_calls (snd (run_task H h (ConnUpdateTask UK fd buf, os'))) \<noteq> []"
  by (simp add: run_task_def HandleConnUpdate_def Let_def handler_calls_def
      split: sum.splits UpdateKind.splits)

lemma run_task_calls: "handler_calls (snd (run_task H h (t, os'))) \<noteq> []"
  by (cases t) (simp_all add: run_conn_task_calls, simp_all add: run_task_def handler_calls_def)

subsection \<open>A read that returns data\<close>

text \<open>
  Claim C1, as amended. For a readiness notification on an established connection whose
  read returns \<open>N > 0\<close> bytes \<open>bs\<close>, the loop adds one \<open>Read\<close> work item to the pool, and
  the buffer it carries is the whole receive buffer: the \<open>N\<close> bytes read followed by
  \<open>buf_size - N\<close> zero bytes, of length \<open>buf_size\<close>. The buffer holds nothing from any
  other notification, and it is the \<open>in_bytes\<close> argument of \<open>OnRead\<close> when a worker
  executes the item and resolves the peer address.
\<close>

theorem read_item_carries_whole_buffer:
  assumes "events ev AND EPOLLHUP = 0" and "data_fd ev \<noteq> server_fd srv"
    and "sys_read (sock os) (buf_size srv) = (n, bs)" and "0 < n"
    and "GetClientAddress os' = Inr a"
  shows "length bs = nat n \<and> nat n \<le> buf_size srv \<and>
         thread_pool (fst (process_event srv (ev, os))) =
           thread_pool srv @
             [ConnUpdateTask Read (data_fd ev) (bs @ replicate (buf_size srv - nat n) 0)] \<and>
         length (bs @ replicate (buf_size srv - nat n) (0 :: byte)) = buf_size srv \<and>
         (\<exists>rest. handler_calls (snd (run_task H h
                 (ConnUpdateTask Read (data_fd ev) (bs @ replicate (buf_size srv - nat n) 0), os')))
               = Call_OnRead a (bs @ replicate (buf_size srv - nat n) 0) # rest)"
proof -
  from sys_read_cases [OF assms(3)] assms(4)
  have len: "length bs = nat n" and le: "nat n \<le> buf_size srv" by auto
  have pool: "thread_pool (fst (process_event srv (ev, os))) =
           thread_pool srv @
             [ConnUpdateTask Read (data_fd ev) (bs @ replicate (buf_size srv - nat n) 0)]"
    using assms len by (simp add: process_event_def Let_def store_bytes_def Push_def)
  have run: "\<exists>rest. handler_calls (snd (run_task H h (ConnUpdateTask Read fd buf, os')))
               = Call_OnRead a buf # rest" for fd buf
    using assms(5)
    by (simp add: run_task_def HandleConnUpdate_def Let_def handler_calls_def
        split: sum.splits)
  show ?thesis using len le pool run by simp
qed

text \<open>The amended claim where ten bytes are read into the buffer of 1024 bytes.\<close>

theorem read_item_carries_whole_buffer_witness:
  "thread_pool (fst (process_event main_srv (\<lparr>events = EPOLLIN, data_fd = 5\<rparr>, os_ok))) =
     [ConnUpdateTask Read 5 (ten_bytes @ replicate 1014 0)] \<and>
   length (ten_bytes @ replicate 1014 (0 :: byte)) = 1024 \<and>
   (\<exists>rest. handler_calls (snd (run_task count_handler 0
        (ConnUpdateTask Read 5 (ten_bytes @ replicate 1014 0), os_ok)))
      = Call_OnRead peer0 (ten_bytes @ replicate 1014 0) # rest)"
proof -
  have a: "events \<lparr>events = EPOLLIN, data_fd = 5\<rparr> AND EPOLLHUP = 0"
    by (simp add: EPOLLIN_def EPOLLHUP_def)
  have b: "data_fd \<lparr>events = EPOLLIN, data_fd = 5\<rparr> \<noteq> server_fd main_srv"
    by (simp add: main_srv_def)
  have c: "sys_read (sock os_ok) (buf_size main_srv) = (10, ten_bytes)"
    by (simp add: sys_read_def os_ok_def main_srv_def ten_bytes_def)
  have d: "(0 :: int) < 10" by simp
  have e: "GetClientAddress os_ok = Inr peer0" by (simp add: os_ok_def)
  from read_item_carries_whole_buffer [OF a b c d e, of count_handler 0] show ?thesis
    by (simp add: main_srv_def)
qed

text \<open>
  Claim C1 as stated fails: with the receive buffer of 1024 bytes and a read that returns
  10 bytes, the work item carries 1024 bytes, and \<open>OnRead\<close> is called with an
  \<open>in_bytes\<close> of length 1024, not 10.
\<close>

theorem read_item_length_counterexample:
  "fst (sys_read (sock os_ok) (buf_size main_srv)) = 10 \<and>
   thread_pool (fst (process_event main_srv (\<lparr>events = EPOLLIN, data_fd = 5\<rparr>, os_ok))) =
     [ConnUpdateTask Read 5 (ten_bytes @ replicate 1014 0)] \<and>
   handler_calls (snd (run_task count_handler 0
       (ConnUpdateTask Read 5 (ten_bytes @ replicate 1014 0), os_ok))) =
     [Call_OnRead peer0 (ten_bytes @ replicate 1014 0)] \<and>
   length (ten_bytes @ replicate 1014 (0 :: byte)) = 1024 \<and>
   length (ten_bytes @ replicate 1014 (0 :: byte)) \<noteq> 10"
  by (simp add: process_event_def Let_def EPOLLIN_def EPOLLHUP_def main_srv_def os_ok_def
      sys_read_def ten_bytes_def store_bytes_def Push_def run_task_def HandleConnUpdate_def
      handler_calls_def count_handler_def Write_def)

subsection \<open>Work items in flight\<close>

text \<open>The loop of \<open>Run\<close> goes through the states that \<open>run_iterations\<close> computes: after
  \<open>k\<close> turns without a failed wait it continues from the server and the trace reached.\<close>

lemma event_loop_prefix:
  "run_iterations srv (map ws [i ..< i + k]) = (Inr srv', as) \<Longrightarrow>
   event_loop ws i srv tr = event_loop ws (i + k) srv' (tr @ as)"
proof (induction k arbitrary: i srv tr as)
  case 0
  then show ?case by simp
next
  case (Suc k)
  have upt: "[i ..< i + Suc k] = i # [Suc i ..< Suc i + k]"
    by (simp add: upt_conv_Cons)
  from Suc.prems have p: "run_iterations srv (ws i # map ws [Suc i ..< Suc i + k]) = (Inr srv', as)"
    by (simp only: upt list.map)
  obtain res a1 where it: "loop_iteration srv (ws i) = (res, a1)"
    by (cases "loop_iteration srv (ws i)")
  show ?case
  proof (cases res)
    case (Inl e)
    with it p show ?thesis by simp
  next
    case (Inr s1)
    obtain res2 a2 where r: "run_iterations s1 (map ws [Suc i ..< Suc i + k]) = (res2, a2)"
      by (cases "run_iterations s1 (map ws [Suc i ..< Suc i + k])")
    from p it Inr r have res2: "res2 = Inr srv'" and as: "as = a1 @ a2"
      by (simp_all add: Let_def)
    from Suc.IH [of s1 "Suc i" a2 "tr @ a1"] r res2
    have "event_loop ws (Suc i) s1 (tr @ a1) = event_loop ws (Suc i + k) srv' ((tr @ a1) @ a2)"
      by simp
    with it Inr as show ?thesis
      by (subst event_loop.simps) simp
  qed
qed

text \<open>
  Claim C2, as amended. The event loop adds at most one work item to the pool for each
  readiness notification, at the end of the queue and with the rest of the server
  unchanged, so a notification adds at most one work item that refers to a given handle.
  The loop does not wait for the work item of an earlier notification to be executed:
  several work items that refer to the same handle can be in flight at once.
\<close>

theorem one_work_item_per_notification:
  "(\<exists>ts. fst (process_event srv er) = srv\<lparr>thread_pool := thread_pool srv @ ts\<rparr> \<and>
         length ts \<le> 1) \<and>
   length (in_flight fd (thread_pool (fst (process_event srv er))))
     \<le> length (in_flight fd (thread_pool srv)) + 1"
proof -
  from process_event_pool [of srv er] obtain ts where
    ts: "fst (process_event srv er) = srv\<lparr>thread_pool := thread_pool srv @ ts\<rparr>"
    and len: "length ts \<le> 1" by blast
  have "length (filter (\<lambda>t. task_fd t = Some fd) ts) \<le> length ts"
    by (rule length_filter_le)
  with len have "length (filter (\<lambda>t. task_fd t = Some fd) ts) \<le> 1" by linarith
  with ts len show ?thesis by (auto simp: in_flight_def)
qed

text \<open>The amended claim at a notification of the listening socket: one work item is
  added, and it is the only one for the new handle.\<close>

theorem one_work_item_per_notification_witness:
  "length (in_flight 5 (thread_pool
      (fst (process_event main_srv (\<lparr>events = EPOLLIN, data_fd = 4\<rparr>, os_ok))))) \<le> 1"
  using one_work_item_per_notification
    [of main_srv "(\<lparr>events = EPOLLIN, data_fd = 4\<rparr>, os_ok)" 5]
  by (simp add: main_srv_def in_flight_def)

text \<open>
  Claim C2 as stated fails. A client connects and sends ten bytes at once: the first wait
  reports the listening socket, the second reports the new connection (descriptor 5).
  After the two turns of the loop, and before any worker has run, the queue holds the
  \<open>New\<close> item and the \<open>Read\<close> item of descriptor 5: two work items for one handle are
  in flight.
\<close>

theorem same_handle_twice_in_flight_counterexample:
  "run_iterations main_srv
     [\<lparr>wait_ret = 1, ready = [(\<lparr>events = EPOLLIN, data_fd = 4\<rparr>, os_ok)]\<rparr>,
      \<lparr>wait_ret = 1, ready = [(\<lparr>events = EPOLLIN, data_fd = 5\<rparr>, os_ok)]\<rparr>]
     = (Inr (main_srv\<lparr>thread_pool :=
               [ConnUpdateTask New 5 [],
                ConnUpdateTask Read 5 (ten_bytes @ replicate 1014 0)]\<rparr>),
        [Sys_epoll_wait 3 16, Sys_accept 4 5, Sys_epoll_ctl_add 3 5 0,
         Sys_epoll_wait 3 16, Sys_read 5 1024]) \<and>
   in_flight 5 [ConnUpdateTask New 5 [], ConnUpdateTask Read 5 (ten_bytes @ replicate 1014 0)]
     = [ConnUpdateTask New 5 [], ConnUpdateTask Read 5 (ten_bytes @ replicate 1014 0)] \<and>
   length (in_flight 5
      [ConnUpdateTask New 5 [], ConnUpdateTask Read 5 (ten_bytes @ replicate 1014 0)]) = 2"
  by (simp add: loop_iteration_def process_event_def Let_def EPOLLIN_def EPOLLHUP_def
      main_srv_def os_ok_def sys_read_def ten_bytes_def store_bytes_def Push_def
      in_flight_def)

subsection \<open>A read that fails, a read of nothing\<close>

text \<open>
  Claim C4. For a readiness notification on an established connection the result \<open>n\<close> of
  the read selects one outcome. If \<open>n\<close> is negative, the loop resolves the peer address,
  closes the handle and adds one work item to the pool that calls \<open>OnError\<close> with an error
  of kind \<open>Read\<close>, and does nothing else. If \<open>n\<close> is zero, it resolves the address, closes
  the handle and adds one work item that calls \<open>OnClose\<close>. If \<open>n\<close> is positive, nothing is
  closed and one \<open>Read\<close> work item is added. In the first two cases the address passed to
  the handler is the all-zero default when the resolution fails, and the iteration goes on
  as it does when the resolution succeeds. Executing the work item makes exactly the one
  call.
\<close>

theorem read_result_classified:
  assumes "events ev AND EPOLLHUP = 0" and "data_fd ev \<noteq> server_fd srv"
    and "sys_read (sock os) (buf_size srv) = (n, bs)"
    and "addr = (case GetClientAddress os of Inl e \<Rightarrow> sockaddr_in_zero | Inr a \<Rightarrow> a)"
  shows "(n < 0 \<longrightarrow>
            process_event srv (ev, os) =
              (srv\<lparr>thread_pool := thread_pool srv @
                     [OnErrorTask addr (Error ''Failed to read from a client.'' Kind.Read)]\<rparr>,
               [Sys_read (data_fd ev) (buf_size srv), Call_GetClientAddress (data_fd ev),
                Sys_close (data_fd ev)])) \<and>
         (n = 0 \<longrightarrow>
            process_event srv (ev, os) =
              (srv\<lparr>thread_pool := thread_pool srv @ [OnCloseTask addr]\<rparr>,
               [Sys_read (data_fd ev) (buf_size srv), Call_GetClientAddress (data_fd ev),
                Sys_close (data_fd ev)])) \<and>
         (0 < n \<longrightarrow>
            closes (snd (process_event srv (ev, os))) = [] \<and>
            (\<exists>in_buf. thread_pool (fst (process_event srv (ev, os))) =
               thread_pool srv @ [ConnUpdateTask Read (data_fd ev) in_buf])) \<and>
         (GetClientAddress os = Inl e' \<longrightarrow> addr = sockaddr_in_zero) \<and>
         kind (Error ''Failed to read from a client.'' Kind.Read) = Kind.Read \<and>
         snd (run_task H h
              (OnErrorTask addr (Error ''Failed to read from a client.'' Kind.Read), os'))
            = [Call_OnError addr (Error ''Failed to read from a client.'' Kind.Read)] \<and>
         snd (run_task H h (OnCloseTask addr, os')) = [Call_OnClose addr]"
proof -
  from sys_read_cases [OF assms(3)] have "n = - 1 \<or> 0 \<le> n" by auto
  then show ?thesis using assms
    by (auto simp add: process_event_def Let_def Push_def run_task_def)
qed

text \<open>
  Claim C4 at a read that fails and at a read that returns zero, the address resolution
  failing in both: the handle is closed and the work item carries the all-zero address.
  And at a read that returns ten bytes: nothing is closed.
\<close>

theorem read_result_classified_witness:
  "process_event main_srv
      (\<lparr>events = EPOLLIN, data_fd = 5\<rparr>,
       os_ok\<lparr>sock := RecvError, GetClientAddress := Inl (Error ''no peer'' Kind.Read)\<rparr>)
     = (main_srv\<lparr>thread_pool :=
           [OnErrorTask sockaddr_in_zero (Error ''Failed to read from a client.'' Kind.Read)]\<rparr>,
        [Sys_read 5 1024, Call_GetClientAddress 5, Sys_close 5]) \<and>
   process_event main_srv
      (\<lparr>events = EPOLLIN, data_fd = 5\<rparr>,
       os_ok\<lparr>sock := RecvData [], GetClientAddress := Inl (Error ''no peer'' Kind.Read)\<rparr>)
     = (main_srv\<lparr>thread_pool := [OnCloseTask sockaddr_in_zero]\<rparr>,
        [Sys_read 5 1024, Call_GetClientAddress 5, Sys_close 5]) \<and>
   closes (snd (process_event main_srv (\<lparr>events = EPOLLIN, data_fd = 5\<rparr>, os_ok))) = [] \<and>
   (\<exists>in_buf. thread_pool (fst (process_event main_srv (\<lparr>events = EPOLLIN, data_fd = 5\<rparr>, os_ok)))
      = [ConnUpdateTask Read 5 in_buf])"
proof -
  let ?ev = "\<lparr>events = EPOLLIN, data_fd = 5\<rparr>"
  let ?os1 = "os_ok\<lparr>sock := RecvError, GetClientAddress := Inl (Error ''no peer'' Kind.Read)\<rparr>"
  let ?os2 = "os_ok\<lparr>sock := RecvData [], GetClientAddress := Inl (Error ''no peer'' Kind.Read)\<rparr>"
  have a: "events ?ev AND EPOLLHUP = 0"
    by (simp add: EPOLLIN_def EPOLLHUP_def)
  have b: "data_fd ?ev \<noteq> server_fd main_srv"
    by (simp add: main_srv_def)
  have c1: "sys_read (sock ?os1) (buf_size main_srv) = (- 1, [])"
    by (simp add: sys_read_def main_srv_def)
  have c2: "sys_read (sock ?os2) (buf_size main_srv) = (0, [])"
    by (simp add: sys_read_def main_srv_def)
  have d1: "sockaddr_in_zero =
      (case GetClientAddress ?os1 of Inl e \<Rightarrow> sockaddr_in_zero | Inr a \<Rightarrow> a)" by simp
  have d2: "sockaddr_in_zero =
      (case GetClientAddress ?os2 of Inl e \<Rightarrow> sockaddr_in_zero | Inr a \<Rightarrow> a)" by simp
  have c3: "sys_read (sock os_ok) (buf_size main_srv) = (10, ten_bytes)"
    by (simp add: sys_read_def os_ok_def main_srv_def ten_bytes_def)
  have d3: "peer0 = (case GetClientAddress os_ok of Inl e \<Rightarrow> sockaddr_in_zero | Inr a \<Rightarrow> a)"
    by (simp add: os_ok_def)
  from read_result_classified
      [OF a b c1 d1, where H = count_handler and h = 0 and os' = os_ok]
    read_result_classified
      [OF a b c2 d2, where H = count_handler and h = 0 and os' = os_ok]
    read_result_classified
      [OF a b c3 d3, where H = count_handler and h = 0 and os' = os_ok]
  show ?thesis by (simp add: main_srv_def)
qed

subsection \<open>A receive buffer of size zero\<close>

text \<open>
  Claim C10. When the receive buffer has size 0, the read of every readiness notification
  on an established connection returns 0, whatever the socket holds (data waiting, an
  error, or the end of the stream), and the notification is treated as a shutdown by the
  peer: the handle is closed and an \<open>OnClose\<close> work item is added to the pool. It is the
  only work item added, and executing it calls \<open>OnClose\<close> and nothing else, so \<open>OnRead\<close>
  is never called.
\<close>

theorem zero_buffer_reads_as_shutdown:
  assumes "buf_size srv = 0" and "events ev AND EPOLLHUP = 0"
    and "data_fd ev \<noteq> server_fd srv"
    and "addr = (case GetClientAddress os of Inl e \<Rightarrow> sockaddr_in_zero | Inr a \<Rightarrow> a)"
  shows "fst (sys_read (sock os) (buf_size srv)) = 0 \<and>
         process_event srv (ev, os) =
           (srv\<lparr>thread_pool := thread_pool srv @ [OnCloseTask addr]\<rparr>,
            [Sys_read (data_fd ev) 0, Call_GetClientAddress (data_fd ev),
             Sys_close (data_fd ev)]) \<and>
         snd (run_task H h (OnCloseTask addr, os')) = [Call_OnClose addr]"
  using assms
  by (simp add: process_event_def Let_def Push_def sys_read_def run_task_def)

text \<open>Claim C10 on a connection with ten bytes waiting and a peer that has not shut down.\<close>

theorem zero_buffer_reads_as_shutdown_witness:
  "sock os_ok = RecvData ten_bytes \<and>
   process_event (main_srv\<lparr>buf_size := 0\<rparr>) (\<lparr>events = EPOLLIN, data_fd = 5\<rparr>, os_ok)
     = (main_srv\<lparr>buf_size := 0, thread_pool := [OnCloseTask peer0]\<rparr>,
        [Sys_read 5 0, Call_GetClientAddress 5, Sys_close 5]) \<and>
   snd (run_task count_handler 0 (OnCloseTask peer0, os_ok)) = [Call_OnClose peer0]"
proof -
  let ?ev = "\<lparr>events = EPOLLIN, data_fd = 5\<rparr>"
  have a: "buf_size (main_srv\<lparr>buf_size := 0\<rparr>) = 0" by simp
  have b: "events ?ev AND EPOLLHUP = 0"
    by (simp add: EPOLLIN_def EPOLLHUP_def)
  have c: "data_fd ?ev \<noteq> server_fd (main_srv\<lparr>buf_size := 0\<rparr>)"
    by (simp add: main_srv_def)
  have d: "peer0 = (case GetClientAddress os_ok of Inl e \<Rightarrow> sockaddr_in_zero | Inr a \<Rightarrow> a)"
    by (simp add: os_ok_def)
  from zero_buffer_reads_as_shutdown [OF a b c d, of count_handler 0 os_ok]
  show ?thesis by (simp add: main_srv_def os_ok_def)
qed

subsection \<open>Notifications of the listening socket\<close>

text \<open>
  Claim C6. For a readiness notification of the listening socket: when \<^verbatim>\<open>accept\<close> fails
  the loop does nothing more (the server is unchanged, nothing is closed, nothing is
  pushed); when the registration of the accepted handle fails, the loop closes that
  handle and pushes nothing; otherwise it pushes exactly one \<open>New\<close> work item for the
  handle and closes nothing. The loop itself never calls the handler. Among all the
  notifications that are processed, the pool is left as it was exactly in these two cases
  of failure, and every work item makes at least one call on the handler when executed:
  they are the only paths without a callback.
\<close>

theorem listening_event_outcomes:
  assumes "events ev AND EPOLLHUP = 0"
  shows "(data_fd ev = server_fd srv \<and> accept_ret os = - 1 \<longrightarrow>
            process_event srv (ev, os) = (srv, [Sys_accept (server_fd srv) (- 1)])) \<and>
         (data_fd ev = server_fd srv \<and> accept_ret os \<noteq> - 1 \<and> epoll_ctl_ret os = - 1 \<longrightarrow>
            process_event srv (ev, os) =
              (srv, [Sys_accept (server_fd srv) (accept_ret os),
                     Sys_epoll_ctl_add (epoll_fd srv) (accept_ret os) (- 1),
                     Sys_close (accept_ret os)])) \<and>
         (data_fd ev = server_fd srv \<and> accept_ret os \<noteq> - 1 \<and> epoll_ctl_ret os \<noteq> - 1 \<longrightarrow>
            thread_pool (fst (process_event srv (ev, os))) =
              thread_pool srv @ [ConnUpdateTask New (accept_ret os) []] \<and>
            closes (snd (process_event srv (ev, os))) = []) \<and>
         handler_calls (snd (process_event srv (ev, os))) = [] \<and>
         (thread_pool (fst (process_event srv (ev, os))) = thread_pool srv \<longleftrightarrow>
            data_fd ev = server_fd srv \<and> (accept_ret os = - 1 \<or> epoll_ctl_ret os = - 1)) \<and>
         handler_calls (snd (run_task H h (t, os'))) \<noteq> []"
  using assms
  apply (intro conjI)
       apply (simp add: process_event_def Let_def)
      apply (simp add: process_event_def Let_def)
     apply (simp add: process_event_def Let_def Push_def)
    apply (simp add: process_event_no_calls)
   apply (simp add: process_event_def Let_def Push_def)
  apply (simp add: run_task_calls)
  done

text \<open>Claim C6 at an accept that fails, at a registration that fails, and at a success.\<close>

theorem listening_event_outcomes_witness:
  "process_event main_srv (\<lparr>events = EPOLLIN, data_fd = 4\<rparr>, os_ok\<lparr>accept_ret := - 1\<rparr>)
     = (main_srv, [Sys_accept 4 (- 1)]) \<and>
   process_event main_srv (\<lparr>events = EPOLLIN, data_fd = 4\<rparr>, os_ok\<lparr>epoll_ctl_ret := - 1\<rparr>)
     = (main_srv, [Sys_accept 4 5, Sys_epoll_ctl_add 3 5 (- 1), Sys_close 5]) \<and>
   thread_pool (fst (process_event main_srv (\<lparr>events = EPOLLIN, data_fd = 4\<rparr>, os_ok)))
     = [ConnUpdateTask New 5 []]"
proof -
  let ?ev = "\<lparr>events = EPOLLIN, data_fd = 4\<rparr>"
  have a: "events ?ev AND EPOLLHUP = 0"
    by (simp add: EPOLLIN_def EPOLLHUP_def)
  note inst = listening_event_outcomes
    [OF a, where srv = main_srv and H = count_handler and h = 0
       and t = "OnCloseTask peer0" and os' = os_ok]
  from inst [of "os_ok\<lparr>accept_ret := - 1\<rparr>"] inst [of "os_ok\<lparr>epoll_ctl_ret := - 1\<rparr>"]
    inst [of os_ok]
  show ?thesis by (simp add: main_srv_def os_ok_def)
qed

section \<open>Properties of the work items\<close>

subsection \<open>Executing a connection update\<close>

text \<open>
  Claim C3. A worker executes a \<open>New\<close> or \<open>Read\<close> work item as follows. If the peer
  address cannot be resolved, it closes the handle and calls \<open>OnError\<close>, and makes no
  other call. Otherwise it calls \<open>OnNew\<close> (for \<open>New\<close>) or \<open>OnRead\<close> with the bytes of the
  item (for \<open>Read\<close>) and writes the output of that call to the connection. If the write
  fails, it closes the handle and then calls \<open>OnError\<close> with an error of kind \<open>Write\<close>,
  and stops. If the write succeeds and \<open>keep_alive\<close> is false, it closes the handle. If
  the write succeeds and \<open>keep_alive\<close> is true, it closes nothing: the handle stays open
  and stays registered with the epoll instance. Here \<open>r\<close> is what the handler method
  returns (\<open>keep_alive\<close>, the output buffer, the new state) and \<open>call\<close> is the call made.
\<close>

theorem HandleConnUpdate_outcomes:
  fixes H :: "'h Handler"
  assumes "r = (case UK of New \<Rightarrow> OnNew H h a [] | Read \<Rightarrow> OnRead H h a in_buf [])"
    and "call = (case UK of New \<Rightarrow> Call_OnNew a | Read \<Rightarrow> Call_OnRead a in_buf)"
  shows "(GetClientAddress os = Inl err \<longrightarrow>
            snd (HandleConnUpdate H UK h fd in_buf os) =
              [Call_GetClientAddress fd, Sys_close fd, Call_OnError sockaddr_in_zero err]) \<and>
         (GetClientAddress os = Inr a \<and> write_ret os = WriteFailed msg \<longrightarrow>
            snd (HandleConnUpdate H UK h fd in_buf os) =
              [Call_GetClientAddress fd, call, Call_Write fd (fst (snd r)), Sys_close fd,
               Call_OnError a (Error msg Kind.Write)]) \<and>
         (GetClientAddress os = Inr a \<and> write_ret os = WriteOk \<and> \<not> fst r \<longrightarrow>
            snd (HandleConnUpdate H UK h fd in_buf os) =
              [Call_GetClientAddress fd, call, Call_Write fd (fst (snd r)), Sys_close fd]) \<and>
         (GetClientAddress os = Inr a \<and> write_ret os = WriteOk \<and> fst r \<longrightarrow>
            snd (HandleConnUpdate H UK h fd in_buf os) =
              [Call_GetClientAddress fd, call, Call_Write fd (fst (snd r))] \<and>
            closes (snd (HandleConnUpdate H UK h fd in_buf os)) = [] \<and>
            registered S (snd (HandleConnUpdate H UK h fd in_buf os)) = S \<and>
            open_fds S (snd (HandleConnUpdate H UK h fd in_buf os)) = S)"
  using assms
  by (cases UK) (simp_all add: HandleConnUpdate_def Let_def Write_def)

text \<open>
  Claim C3 on a \<open>Read\<close> item of descriptor 5 with the counting handler (which keeps the
  connection alive and echoes its input): the address resolution fails; the write fails;
  the write succeeds. And on a \<open>New\<close> item with a handler whose \<open>OnNew\<close> asks for the
  connection to be closed.
\<close>

theorem HandleConnUpdate_outcomes_witness:
  "snd (HandleConnUpdate count_handler Read 0 5 ten_bytes
          (os_ok\<lparr>GetClientAddress := Inl (Error ''no peer'' Kind.Read)\<rparr>))
     = [Call_GetClientAddress 5, Sys_close 5,
        Call_OnError sockaddr_in_zero (Error ''no peer'' Kind.Read)] \<and>
   snd (HandleConnUpdate count_handler Read 0 5 ten_bytes
          (os_ok\<lparr>write_ret := WriteFailed ''broken pipe''\<rparr>))
     = [Call_GetClientAddress 5, Call_OnRead peer0 ten_bytes, Call_Write 5 ten_bytes,
        Sys_close 5, Call_OnError peer0 (Error ''broken pipe'' Kind.Write)] \<and>
   snd (HandleConnUpdate count_handler Read 0 5 ten_bytes os_ok)
     = [Call_GetClientAddress 5, Call_OnRead peer0 ten_bytes, Call_Write 5 ten_bytes] \<and>
   registered {4, 5} (snd (HandleConnUpdate count_handler Read 0 5 ten_bytes os_ok)) = {4, 5} \<and>
   snd (HandleConnUpdate (count_handler\<lparr>OnNew := (\<lambda>h a out. (False, out, h))\<rparr>) New 0 5 [] os_ok)
     = [Call_GetClientAddress 5, Call_OnNew peer0, Call_Write 5 [], Sys_close 5]"
proof -
  let ?H = "count_handler\<lparr>OnNew := (\<lambda>h a out. (False, out, h))\<rparr>"
  note rd = HandleConnUpdate_outcomes
    [OF refl refl, where H = count_handler and UK = Read and h = 0 and fd = 5
       and in_buf = ten_bytes and a = peer0 and S = "{4, 5}"]
  note nw = HandleConnUpdate_outcomes
    [OF refl refl, where H = ?H and UK = New and h = 0 and fd = 5
       and in_buf = "[]" and a = peer0 and S = "{4, 5}"]
  from rd [of "os_ok\<lparr>GetClientAddress := Inl (Error ''no peer'' Kind.Read)\<rparr>"
              "Error ''no peer'' Kind.Read" "''broken pipe''"]
    rd [of "os_ok\<lparr>write_ret := WriteFailed ''broken pipe''\<rparr>"
              "Error ''no peer'' Kind.Read" "''broken pipe''"]
    rd [of os_ok "Error ''no peer'' Kind.Read" "''broken pipe''"]
    nw [of os_ok "Error ''no peer'' Kind.Read" "''broken pipe''"]
  show ?thesis by (simp add: os_ok_def count_handler_def)
qed

subsection \<open>The handler object given to Run\<close>

text \<open>The handler after a sequence of work items is what the \<open>OnError\<close> and \<open>OnClose\<close>
  items alone make of it.\<close>

lemma run_tasks_filter:
  "fst (run_tasks H h tasks) =
   fst (run_tasks H h (filter (\<lambda>tos. task_fd (fst tos) = None) tasks))"
proof (induction tasks arbitrary: h)
  case Nil
  show ?case by simp
next
  case (Cons tos rest)
  show ?case
  proof (cases "fst tos")
    case (ConnUpdateTask UK fd in_buf)
    then have "fst (run_task H h tos) = h" by (simp add: run_task_def)
    with ConnUpdateTask Cons.IH [of h] show ?thesis by (simp add: Let_def)
  next
    case (OnErrorTask a e)
    with Cons.IH show ?thesis by (simp add: Let_def)
  next
    case (OnCloseTask a)
    with Cons.IH show ?thesis by (simp add: Let_def)
  qed
qed

text \<open>
  The copy that \<^verbatim>\<open>HandleConnUpdate\<close> works on does change (the counting handler counts
  the call of \<open>OnNew\<close>), the handler object itself does not; a work item that calls
  \<open>OnClose\<close> changes the object.
\<close>

lemma handler_copy_example:
  "fst (HandleConnUpdate count_handler New 0 5 [] os_ok) = 1 \<and>
   fst (run_task count_handler 0 (ConnUpdateTask New 5 [], os_ok)) = 0 \<and>
   fst (run_task count_handler 0 (OnCloseTask peer0, os_ok)) = 1"
  by (simp add: HandleConnUpdate_def run_task_def count_handler_def os_ok_def Write_def)

text \<open>
  Claim C9. Executing a \<open>New\<close> or \<open>Read\<close> work item leaves the handler object that was
  passed to \<open>Run\<close> as it was: \<open>HandleConnUpdate\<close> takes the handler by value, and what
  \<open>OnNew\<close>, \<open>OnRead\<close> and \<open>OnError\<close> do to that copy is lost when it returns. Hence,
  after any sequence of work items, the handler is in the state that the other work items
  of the sequence alone would have left it in: the later callbacks never see a change made
  during a \<open>New\<close> or \<open>Read\<close> item.
\<close>

theorem conn_update_keeps_handler:
  "fst (run_task H h (ConnUpdateTask UK fd in_buf, os)) = h \<and>
   fst (run_tasks H h tasks) =
     fst (run_tasks H h (filter (\<lambda>tos. task_fd (fst tos) = None) tasks))"
  using run_tasks_filter [of H h tasks] by (simp add: run_task_def)

text \<open>Claim C9 with the counting handler: a \<open>New\<close> item, a \<open>Read\<close> item and an \<open>OnClose\<close>
  item executed in this order leave the count at 1.\<close>

theorem conn_update_keeps_handler_witness:
  "fst (run_task count_handler 0 (ConnUpdateTask Read 5 ten_bytes, os_ok)) = 0 \<and>
   fst (run_tasks count_handler 0
          [(ConnUpdateTask New 5 [], os_ok), (ConnUpdateTask Read 5 ten_bytes, os_ok),
           (OnCloseTask peer0, os_ok)]) = 1"
  using conn_update_keeps_handler
    [of count_handler 0 Read 5 ten_bytes os_ok
        "[(ConnUpdateTask New 5 [], os_ok), (ConnUpdateTask Read 5 ten_bytes, os_ok),
          (OnCloseTask peer0, os_ok)]"]
  by (simp add: run_task_def count_handler_def)

section \<open>Properties of construction and of Run\<close>

subsection \<open>A failed construction\<close>

text \<open>A construction that fails throws an error of one of three kinds and closes
  nothing; a server that was constructed and is destroyed leaves no descriptor open.\<close>

lemma Server_ctor_failure:
  "Server_ctor p t b m os = (Inl e, tr) \<Longrightarrow>
     kind e \<in> {EpollCreation, SocketCreation, SocketBinding} \<and> closes tr = []"
  by (auto simp: Server_ctor_def Let_def split: if_splits)

lemma Server_ctor_dtor:
  "Server_ctor p t b m os = (Inr srv, tr) \<Longrightarrow> open_fds {} (tr @ Server_dtor srv) = {}"
  by (auto simp: Server_ctor_def Let_def Server_dtor_def split: if_splits)

text \<open>
  Claim C5 does not hold of the code. \<^verbatim>\<open>Server(8080, 4, 1024, 16)\<close> with \<^verbatim>\<open>epoll_create1\<close>
  returning 3, \<^verbatim>\<open>socket\<close> returning 4 and \<^verbatim>\<open>bind\<close> failing: the constructor throws an
  error of kind \<open>SocketBinding\<close>, as the claim says, and it closes nothing, so that the
  epoll instance and the socket, descriptors 3 and 4, remain open.
\<close>

theorem Server_ctor_bind_failure_leaks:
  "Server_ctor 8080 4 1024 16
      \<lparr>epoll_create1_ret = 3, socket_ret = 4, setsockopt_ret = 0, bind_ret = - 1\<rparr>
     = (Inl (Error ''Failed to bind server socket.'' SocketBinding),
        [Sys_epoll_create1 3, Sys_socket 4, Sys_setsockopt 4, Sys_bind 4 8080]) \<and>
   closes [Sys_epoll_create1 3, Sys_socket 4, Sys_setsockopt 4, Sys_bind 4 8080] = [] \<and>
   open_fds {} [Sys_epoll_create1 3, Sys_socket 4, Sys_setsockopt 4, Sys_bind 4 8080] = {3, 4}"
  by (simp add: Server_ctor_def Let_def insert_commute)

subsection \<open>Run does not return\<close>

lemma loop_iteration_fail:
  "wait_ret w = - 1 \<Longrightarrow>
   loop_iteration srv w = (Inl (Error ''Failed to wait for events.'' EpollWait),
                           [Sys_epoll_wait (epoll_fd srv) (max_events srv)])"
  by (simp add: loop_iteration_def)

lemma loop_iteration_ok:
  "wait_ret w \<noteq> - 1 \<Longrightarrow>
   \<exists>srv' as. loop_iteration srv w = (Inr srv', as) \<and> epoll_fd srv' = epoll_fd srv
      \<and> max_events srv' = max_events srv"
  by (simp add: loop_iteration_def Let_def process_events_frame)

lemma loop_iteration_Inl:
  "loop_iteration srv w = (Inl e, as) \<Longrightarrow>
     wait_ret w = - 1 \<and> e = Error ''Failed to wait for events.'' EpollWait"
  by (auto simp: loop_iteration_def Let_def split: if_splits)

text \<open>If the wait fails for the first time \<open>k\<close> turns from now, the loop ends there with
  the error, and the failed wait is its last action.\<close>

lemma event_loop_first_failure:
  "wait_ret (ws (i + k)) = - 1 \<Longrightarrow> (\<forall>j < k. wait_ret (ws (i + j)) \<noteq> - 1) \<Longrightarrow>
   \<exists>tr'. event_loop ws i srv tr =
            Some (Inl (Error ''Failed to wait for events.'' EpollWait),
                  tr' @ [Sys_epoll_wait (epoll_fd srv) (max_events srv)])"
proof (induction k arbitrary: i srv tr)
  case 0
  then show ?case
    by (subst event_loop.simps) (simp add: loop_iteration_fail)
next
  case (Suc k)
  from Suc.prems(2) have ok: "wait_ret (ws i) \<noteq> - 1" by force
  from loop_iteration_ok [OF ok, of srv] obtain srv' as where
    it: "loop_iteration srv (ws i) = (Inr srv', as)"
    and fr: "epoll_fd srv' = epoll_fd srv" "max_events srv' = max_events srv" by blast
  have a: "wait_ret (ws (Suc i + k)) = - 1" using Suc.prems(1) by simp
  have b: "\<forall>j < k. wait_ret (ws (Suc i + j)) \<noteq> - 1"
  proof (intro allI impI)
    fix j assume "j < k"
    then have "Suc j < Suc k" by simp
    with Suc.prems(2) have "wait_ret (ws (i + Suc j)) \<noteq> - 1" by blast
    then show "wait_ret (ws (Suc i + j)) \<noteq> - 1" by simp
  qed
  from Suc.IH [OF a b, of srv' "tr @ as"] fr obtain tr' where
    "event_loop ws (Suc i) srv' (tr @ as) =
       Some (Inl (Error ''Failed to wait for events.'' EpollWait),
             tr' @ [Sys_epoll_wait (epoll_fd srv) (max_events srv)])" by auto
  then show ?case
    by (subst event_loop.simps) (simp add: it)
qed

text \<open>If the loop ends, it ends with the error of a failed wait.\<close>

lemma event_loop_Some:
  assumes "event_loop ws i srv tr = Some y"
  shows "(\<exists>tr'. y = (Inl (Error ''Failed to wait for events.'' EpollWait), tr')) \<and>
     (\<exists>k. wait_ret (ws k) = - 1)"
proof (rule event_loop.raw_induct
    [where P = "\<lambda>ws i srv tr y.
       (\<exists>tr'. y = (Inl (Error ''Failed to wait for events.'' EpollWait), tr')) \<and>
       (\<exists>k. wait_ret (ws k) = - 1)", OF _ assms])
  fix f :: "(nat \<Rightarrow> wait_reply) \<Rightarrow> nat \<Rightarrow> Server \<Rightarrow> Action list
            \<Rightarrow> ((Error + unit) \<times> Action list) option"
  fix ws i srv tr y
  assume IH: "\<And>ws i srv tr y. f ws i srv tr = Some y \<Longrightarrow>
       (\<exists>tr'. y = (Inl (Error ''Failed to wait for events.'' EpollWait), tr')) \<and>
       (\<exists>k. wait_ret (ws k) = - 1)"
  assume step: "(case loop_iteration srv (ws i) of
                   (Inl e, as) \<Rightarrow> Some (Inl e, tr @ as)
                 | (Inr srv', as) \<Rightarrow> f ws (Suc i) srv' (tr @ as)) = Some y"
  show "(\<exists>tr'. y = (Inl (Error ''Failed to wait for events.'' EpollWait), tr')) \<and>
       (\<exists>k. wait_ret (ws k) = - 1)"
  proof (cases "loop_iteration srv (ws i)")
    case (Pair res as)
    show ?thesis
    proof (cases res)
      case (Inl e)
      with Pair loop_iteration_Inl [of srv "ws i" e as] step show ?thesis by auto
    next
      case (Inr srv')
      with Pair step have "f ws (Suc i) srv' (tr @ as) = Some y" by simp
      from IH [OF this] show ?thesis .
    qed
  qed
qed

lemma event_loop_diverges:
  "(\<forall>k. wait_ret (ws k) \<noteq> - 1) \<Longrightarrow> event_loop ws i srv tr = None"
  using event_loop_Some [of ws i srv tr] by (cases "event_loop ws i srv tr") auto

text \<open>
  Claim C7. \<open>Run\<close> never returns normally: a run goes on forever (\<open>None\<close>) or ends by
  throwing an error of kind \<open>SocketListening\<close>, \<open>EpollAdd\<close> or \<open>EpollWait\<close>, the setup
  errors. If the listening socket was set up and a wait fails, for the first time at the
  \<open>k\<close>-th call, \<open>Run\<close> throws the error of kind \<open>EpollWait\<close> and the failed wait is the
  last thing it does: the wait is not tried again. If no wait ever fails, \<open>Run\<close> does go
  on forever.
\<close>

theorem Run_never_returns:
  "(Run srv os = None \<or>
      (\<exists>e tr. Run srv os = Some (Inl e, tr) \<and> kind e \<in> {SocketListening, EpollAdd, EpollWait})) \<and>
   (listen_ret os \<noteq> - 1 \<and> add_ret os \<noteq> - 1 \<and> wait_ret (waits os k) = - 1 \<and>
      (\<forall>j < k. wait_ret (waits os j) \<noteq> - 1) \<longrightarrow>
      (\<exists>tr. Run srv os = Some (Inl (Error ''Failed to wait for events.'' EpollWait),
                               tr @ [Sys_epoll_wait (epoll_fd srv) (max_events srv)]))) \<and>
   (listen_ret os \<noteq> - 1 \<and> add_ret os \<noteq> - 1 \<and> (\<forall>j. wait_ret (waits os j) \<noteq> - 1) \<longrightarrow>
      Run srv os = None)"
proof (intro conjI impI)
  show "Run srv os = None \<or>
      (\<exists>e tr. Run srv os = Some (Inl e, tr) \<and> kind e \<in> {SocketListening, EpollAdd, EpollWait})"
  proof (cases "Run srv os")
    case None
    then show ?thesis by simp
  next
    case (Some y)
    show ?thesis
    proof (cases "listen_ret os = - 1 \<or> add_ret os = - 1")
      case True
      then show ?thesis by (auto simp: Run_def)
    next
      case False
      with Some have "event_loop (waits os) 0 srv
          [Sys_listen (server_fd srv),
           Sys_epoll_ctl_add (epoll_fd srv) (server_fd srv) (add_ret os)] = Some y"
        by (simp add: Run_def)
      from event_loop_Some [OF this] Some show ?thesis by auto
    qed
  qed
next
  assume h: "listen_ret os \<noteq> - 1 \<and> add_ret os \<noteq> - 1 \<and> wait_ret (waits os k) = - 1 \<and>
      (\<forall>j < k. wait_ret (waits os j) \<noteq> - 1)"
  then have a: "wait_ret (waits os (0 + k)) = - 1"
    and b: "\<forall>j < k. wait_ret (waits os (0 + j)) \<noteq> - 1" by simp_all
  from event_loop_first_failure [OF a b] h
  show "\<exists>tr. Run srv os = Some (Inl (Error ''Failed to wait for events.'' EpollWait),
                               tr @ [Sys_epoll_wait (epoll_fd srv) (max_events srv)])"
    by (simp add: Run_def)
next
  assume "listen_ret os \<noteq> - 1 \<and> add_ret os \<noteq> - 1 \<and> (\<forall>j. wait_ret (waits os j) \<noteq> - 1)"
  then show "Run srv os = None"
    by (simp add: Run_def event_loop_diverges)
qed

text \<open>
  Claim C7 on two runs of the server of \<^verbatim>\<open>main\<close>: in the first, the first wait reports a
  connection and the second wait fails; in the second, every wait returns with no event.
\<close>

theorem Run_never_returns_witness:
  "(\<exists>tr. Run main_srv
       \<lparr>listen_ret = 0, add_ret = 0,
        waits = (\<lambda>i. if i = 0
                      then \<lparr>wait_ret = 1, ready = [(\<lparr>events = EPOLLIN, data_fd = 4\<rparr>, os_ok)]\<rparr>
                      else \<lparr>wait_ret = - 1, ready = []\<rparr>)\<rparr>
     = Some (Inl (Error ''Failed to wait for events.'' EpollWait), tr @ [Sys_epoll_wait 3 16])) \<and>
   Run main_srv \<lparr>listen_ret = 0, add_ret = 0, waits = (\<lambda>i. \<lparr>wait_ret = 0, ready = []\<rparr>)\<rparr>
     = None"
  using Run_never_returns
    [of main_srv
        "\<lparr>listen_ret = 0, add_ret = 0,
          waits = (\<lambda>i. if i = 0
                        then \<lparr>wait_ret = 1, ready = [(\<lparr>events = EPOLLIN, data_fd = 4\<rparr>, os_ok)]\<rparr>
                        else \<lparr>wait_ret = - 1, ready = []\<rparr>)\<rparr>"
        "Suc 0"]
    Run_never_returns
    [of main_srv "\<lparr>listen_ret = 0, add_ret = 0, waits = (\<lambda>i. \<lparr>wait_ret = 0, ready = []\<rparr>)\<rparr>" 0]
  by (simp add: main_srv_def)

end
